theory Spec2Isabelle
  imports Complex_Main
begin

section \<open>Python values\<close>

text \<open>
  A Python float is modelled as a real number or one of the three special values; the
  rounding of finite arithmetic is idealised (finite values are exact reals). The
  comparisons follow IEEE 754: every comparison with NaN is false.
\<close>

datatype pyfloat = Finite real | PosInf | NegInf | NaN

fun fle :: "pyfloat \<Rightarrow> pyfloat \<Rightarrow> bool" where
  "fle NaN b = False"
| "fle a NaN = False"
| "fle NegInf b = True"
| "fle a PosInf = True"
| "fle (Finite a) (Finite b) = (a \<le> b)"
| "fle a b = False"

definition flt :: "pyfloat \<Rightarrow> pyfloat \<Rightarrow> bool" where
  "flt a b = (fle a b \<and> a \<noteq> b)"

definition fgt :: "pyfloat \<Rightarrow> pyfloat \<Rightarrow> bool" where
  "fgt a b = flt b a"

definition isnan :: "pyfloat \<Rightarrow> bool" where
  "isnan v = (v = NaN)"

definition isinf :: "pyfloat \<Rightarrow> bool" where
  "isinf v = (v = PosInf \<or> v = NegInf)"

text \<open>Python's builtin \<open>max\<close> over a non-empty sequence: the running maximum is
  replaced only by a strictly greater element.\<close>

fun py_max_from :: "pyfloat \<Rightarrow> pyfloat list \<Rightarrow> pyfloat" where
  "py_max_from cur [] = cur"
| "py_max_from cur (x # xs) = py_max_from (if fgt x cur then x else cur) xs"

datatype violation = Missing | NotGe int | NotLe int | Custom string

datatype error =
    ValueError string
  | ValidationError "(string \<times> violation) list"
  | IndexError
  | TypeError
  | AttributeError
  | OtherError string

datatype level = DEBUG | INFO | WARNING | ERROR

type_synonym log = "(level \<times> string) list"

text \<open>Decimal rendering of a natural number, as \<open>str\<close> and f-strings print it.\<close>

definition digit_char :: "nat \<Rightarrow> char" where
  "digit_char d = ''0123456789'' ! d"

function show_nat :: "nat \<Rightarrow> string" where
  "show_nat n = (if n < 10 then [digit_char n] else show_nat (n div 10) @ [digit_char (n mod 10)])"
  by pat_completeness auto
termination
  by (relation "measure id") auto

section \<open>Data validation (utils/data\_validator.py)\<close>

text \<open>A numpy array: its shape and its elements in row-major order.\<close>

record ndarray =
  shape :: "nat list"
  elems :: "pyfloat list"

definition column :: "ndarray \<Rightarrow> nat \<Rightarrow> pyfloat list" where
  "column a i = map (\<lambda>r. elems a ! (r * (shape a ! 1) + i)) [0..<shape a ! 0]"

definition rows_of :: "ndarray \<Rightarrow> pyfloat list list" where
  "rows_of a = map (\<lambda>r. take (shape a ! 1) (drop (r * (shape a ! 1)) (elems a))) [0..<shape a ! 0]"

definition feature_ranges :: "(nat \<times> nat \<times> nat) list" where
  "feature_ranges =
     [(0, 0, 14), (1, 0, 1000), (2, 0, 50000), (3, 0, 20), (4, 0, 1000),
      (5, 0, 2000), (6, 0, 50), (7, 0, 200), (8, 0, 20)]"

definition below_msg :: "string \<Rightarrow> nat \<Rightarrow> string" where
  "below_msg name min_val =
     ''Feature '' @ name @ '' has values below minimum ('' @ show_nat min_val @ '')''"

definition above_msg :: "string \<Rightarrow> nat \<Rightarrow> string" where
  "above_msg name max_val =
     ''Feature '' @ name @ '' has values above typical maximum ('' @ show_nat max_val @ '')''"

text \<open>The loop over \<open>feature_ranges.items()\<close>; the log collects the warnings.\<close>

fun check_ranges :: "ndarray \<Rightarrow> string list \<Rightarrow> (nat \<times> nat \<times> nat) list \<Rightarrow> log \<Rightarrow> error + log" where
  "check_ranges features feature_names [] lg = Inr lg"
| "check_ranges features feature_names ((i, min_val, max_val) # rest) lg =
     (if i < shape features ! 1 then
        (let feature_values = column features i in
         if list_ex (\<lambda>v. flt v (Finite (real min_val))) feature_values then
           (if i < length feature_names
            then Inl (ValueError (below_msg (feature_names ! i) min_val))
            else Inl IndexError)
         else if list_ex (\<lambda>v. fgt v (Finite (real max_val))) feature_values then
           (if i < length feature_names
            then check_ranges features feature_names rest
                   (lg @ [(WARNING, above_msg (feature_names ! i) max_val)])
            else Inl IndexError)
         else check_ranges features feature_names rest lg)
      else check_ranges features feature_names rest lg)"

definition validate_inference_data :: "ndarray \<Rightarrow> string list \<Rightarrow> error + log" where
  "validate_inference_data features feature_names =
     (if length (shape features) \<noteq> 2 then Inl (ValueError ''Features must be a 2D array'')
      else if shape features ! 1 \<noteq> length feature_names then
        Inl (ValueError (''Expected '' @ show_nat (length feature_names) @ '' features, got ''
                          @ show_nat (shape features ! 1)))
      else if list_ex isnan (elems features) then Inl (ValueError ''Features contain NaN values'')
      else if list_ex isinf (elems features) then
        Inl (ValueError ''Features contain infinite values'')
      else (case check_ranges features feature_names feature_ranges [] of
              Inl e \<Rightarrow> Inl e
            | Inr lg \<Rightarrow> Inr (lg @ [(DEBUG, ''Inference data validation passed'')])))"

section \<open>Inference (inference/predictor.py)\<close>

record PredictionInput =
  pH :: pyfloat
  Hardness :: pyfloat
  Solids :: pyfloat
  Chloramines :: pyfloat
  Sulfate :: pyfloat
  Conductivity :: pyfloat
  Organic_carbon :: pyfloat
  Trihalomethanes :: pyfloat
  Turbidity :: pyfloat

definition canonical_names :: "string list" where
  "canonical_names =
     [''pH'', ''Hardness'', ''Solids'', ''Chloramines'', ''Sulfate'', ''Conductivity'',
      ''Organic_carbon'', ''Trihalomethanes'', ''Turbidity'']"

text \<open>
  The check pydantic runs on one declared field: the value is required, then the
  \<open>ge\<close> bound, then the \<open>le\<close> bound (written \<open>not v >= ge\<close>, so NaN is
  rejected), then the field's own validator if it has one.
\<close>

definition check_field ::
  "(string \<rightharpoonup> pyfloat) \<Rightarrow> string \<Rightarrow> int \<Rightarrow> int option \<Rightarrow> (pyfloat \<Rightarrow> string option)
     \<Rightarrow> (string \<times> violation) list" where
  "check_field kwargs name ge le custom =
     (case kwargs name of
        None \<Rightarrow> [(name, Missing)]
      | Some v \<Rightarrow>
          if \<not> fle (Finite (real_of_int ge)) v then [(name, NotGe ge)]
          else (case le of
                  Some hi \<Rightarrow>
                    if \<not> fle v (Finite (real_of_int hi)) then [(name, NotLe hi)]
                    else (case custom v of Some msg \<Rightarrow> [(name, Custom msg)] | None \<Rightarrow> [])
                | None \<Rightarrow> (case custom v of Some msg \<Rightarrow> [(name, Custom msg)] | None \<Rightarrow> [])))"

definition validate_ph :: "pyfloat \<Rightarrow> string option" where
  "validate_ph v =
     (if \<not> (fle (Finite 0) v \<and> fle v (Finite 14)) then Some ''pH must be between 0 and 14''
      else None)"

definition no_validator :: "pyfloat \<Rightarrow> string option" where
  "no_validator v = None"

text \<open>\<open>PredictionInput(**kwargs)\<close>: every field is checked and the violations of all
  fields are raised together as one validation error.\<close>

definition make_record :: "(string \<rightharpoonup> pyfloat) \<Rightarrow> PredictionInput" where
  "make_record kwargs =
     \<lparr>pH = the (kwargs ''pH''), Hardness = the (kwargs ''Hardness''),
      Solids = the (kwargs ''Solids''), Chloramines = the (kwargs ''Chloramines''),
      Sulfate = the (kwargs ''Sulfate''), Conductivity = the (kwargs ''Conductivity''),
      Organic_carbon = the (kwargs ''Organic_carbon''),
      Trihalomethanes = the (kwargs ''Trihalomethanes''),
      Turbidity = the (kwargs ''Turbidity'')\<rparr>"

definition PredictionInput_new :: "(string \<rightharpoonup> pyfloat) \<Rightarrow> error + PredictionInput" where
  "PredictionInput_new kwargs =
     (let errs =
            check_field kwargs ''pH'' 0 (Some 14) validate_ph
          @ check_field kwargs ''Hardness'' 0 None no_validator
          @ check_field kwargs ''Solids'' 0 None no_validator
          @ check_field kwargs ''Chloramines'' 0 None no_validator
          @ check_field kwargs ''Sulfate'' 0 None no_validator
          @ check_field kwargs ''Conductivity'' 0 None no_validator
          @ check_field kwargs ''Organic_carbon'' 0 None no_validator
          @ check_field kwargs ''Trihalomethanes'' 0 None no_validator
          @ check_field kwargs ''Turbidity'' 0 None no_validator
      in if errs \<noteq> [] then Inl (ValidationError errs) else Inr (make_record kwargs))"

definition to_array :: "PredictionInput \<Rightarrow> ndarray" where
  "to_array inp =
     \<lparr>shape = [1, 9],
      elems = [pH inp, Hardness inp, Solids inp, Chloramines inp, Sulfate inp,
               Conductivity inp, Organic_carbon inp, Trihalomethanes inp, Turbidity inp]\<rparr>"

record PredictionOutput =
  prediction :: int
  probability :: pyfloat
  confidence :: pyfloat
  result :: string
  out_model_version :: string
  features_used :: "string list"

definition check_unit :: "string \<Rightarrow> pyfloat \<Rightarrow> (string \<times> violation) list" where
  "check_unit name v =
     (if \<not> fle (Finite 0) v then [(name, NotGe 0)]
      else if \<not> fle v (Finite 1) then [(name, NotLe 1)] else [])"

text \<open>\<open>PredictionOutput(...)\<close>: \<open>probability\<close> and \<open>confidence\<close> are declared with
  \<open>ge=0, le=1\<close>.\<close>

definition PredictionOutput_new ::
  "int \<Rightarrow> pyfloat \<Rightarrow> pyfloat \<Rightarrow> string \<Rightarrow> string \<Rightarrow> string list \<Rightarrow> error + PredictionOutput" where
  "PredictionOutput_new pred prob conf res ver names =
     (let errs = check_unit ''probability'' prob @ check_unit ''confidence'' conf
      in if errs \<noteq> [] then Inl (ValidationError errs)
         else Inr \<lparr>prediction = pred, probability = prob, confidence = conf, result = res,
                   out_model_version = ver, features_used = names\<rparr>)"

text \<open>
  The scaler and the classifier are objects with methods; a trained pair comes from
  \<open>joblib.load\<close> and is arbitrary, so each method is a function that may raise.
\<close>

record scaler_obj =
  scaler_type :: string
  transform :: "ndarray \<Rightarrow> error + pyfloat list list"

record classifier =
  model_type :: string
  clf_predict :: "pyfloat list list \<Rightarrow> error + int list"
  clf_predict_proba :: "pyfloat list list \<Rightarrow> error + pyfloat list list"

text \<open>A \<open>for\<close> loop that appends one result per element and stops at the first raise.\<close>

fun for_each :: "('a \<Rightarrow> error + 'b) \<Rightarrow> 'a list \<Rightarrow> 'b list \<Rightarrow> error + 'b list" where
  "for_each f [] results = Inr results"
| "for_each f (x # xs) results =
     (case f x of Inl e \<Rightarrow> Inl e | Inr r \<Rightarrow> for_each f xs (results @ [r]))"

definition row_pH :: "pyfloat list \<Rightarrow> error + pyfloat" where
  "row_pH x = (case x of [] \<Rightarrow> Inl IndexError | p # _ \<Rightarrow> Inr p)"

definition row_turbidity :: "pyfloat list \<Rightarrow> pyfloat" where
  "row_turbidity x = (if length x > 8 then x ! 8 else Finite 5.0)"

definition MockModel_predict_row :: "pyfloat list \<Rightarrow> error + int" where
  "MockModel_predict_row x =
     (case row_pH x of
        Inl e \<Rightarrow> Inl e
      | Inr p \<Rightarrow>
          (let turbidity = row_turbidity x in
           if fle (Finite 6.5) p \<and> fle p (Finite 8.5) \<and> fle turbidity (Finite 5.0)
           then Inr 1 else Inr 0))"

definition MockModel_predict :: "pyfloat list list \<Rightarrow> error + int list" where
  "MockModel_predict X = for_each MockModel_predict_row X []"

definition MockModel_proba_row :: "pyfloat list \<Rightarrow> error + pyfloat list" where
  "MockModel_proba_row x =
     (case row_pH x of
        Inl e \<Rightarrow> Inl e
      | Inr p \<Rightarrow>
          (let turbidity = row_turbidity x;
               base_prob = 0.5;
               base_prob = (if fle (Finite 6.5) p \<and> fle p (Finite 8.5)
                            then base_prob + 0.25 else base_prob);
               base_prob = (if fle turbidity (Finite 5.0) then base_prob + 0.15 else base_prob);
               safe_prob = min 0.99 (max 0.01 base_prob);
               unsafe_prob = 1 - safe_prob
           in Inr [Finite unsafe_prob, Finite safe_prob]))"

definition MockModel_predict_proba :: "pyfloat list list \<Rightarrow> error + pyfloat list list" where
  "MockModel_predict_proba X = for_each MockModel_proba_row X []"

definition MockModel :: classifier where
  "MockModel = \<lparr>model_type = ''MockModel'', clf_predict = MockModel_predict,
                 clf_predict_proba = MockModel_predict_proba\<rparr>"

definition MockScaler :: scaler_obj where
  "MockScaler = \<lparr>scaler_type = ''MockScaler'', transform = (\<lambda>X. Inr (rows_of X))\<rparr>"

record WaterQualityPredictor =
  model_dir :: string
  model :: "classifier option"
  scaler :: "scaler_obj option"
  feature_names :: "string list option"
  model_version :: string
  is_loaded :: bool

text \<open>What the engine sees of the disk: \<open>os.path.exists\<close> and \<open>joblib.load\<close>, which
  may raise on a file that does not deserialise.\<close>

record storage =
  path_exists :: "string \<Rightarrow> bool"
  load_classifier :: "string \<Rightarrow> error + classifier"
  load_scaler :: "string \<Rightarrow> error + scaler_obj"
  load_names :: "string \<Rightarrow> error + string list"

definition path_join :: "string \<Rightarrow> string \<Rightarrow> string" where
  "path_join d name =
     (if d = [] then name else if last d = CHR ''/'' then d @ name else d @ ''/'' @ name)"

definition load_model :: "WaterQualityPredictor \<Rightarrow> storage \<Rightarrow> bool \<times> WaterQualityPredictor" where
  "load_model self st =
     (let model_path = path_join (model_dir self) ''model.pkl'';
          scaler_path = path_join (model_dir self) ''scaler.pkl'';
          feature_path = path_join (model_dir self) ''features.pkl''
      in if \<not> (path_exists st model_path \<and> path_exists st scaler_path) then (False, self)
         else
           (case load_classifier st model_path of
              Inl e \<Rightarrow> (False, self)
            | Inr m \<Rightarrow>
                (case load_scaler st scaler_path of
                   Inl e \<Rightarrow> (False, self\<lparr>model := Some m\<rparr>)
                 | Inr sc \<Rightarrow>
                     (if path_exists st feature_path then
                        (case load_names st feature_path of
                           Inl e \<Rightarrow> (False, self\<lparr>model := Some m, scaler := Some sc\<rparr>)
                         | Inr names \<Rightarrow>
                             (True, self\<lparr>model := Some m, scaler := Some sc,
                                         feature_names := Some names, is_loaded := True\<rparr>))
                      else
                        (True, self\<lparr>model := Some m, scaler := Some sc,
                                    feature_names := Some canonical_names,
                                    is_loaded := True\<rparr>)))))"

definition initialize_fallback_model :: "WaterQualityPredictor \<Rightarrow> WaterQualityPredictor" where
  "initialize_fallback_model self =
     self\<lparr>model := Some MockModel, scaler := Some MockScaler,
          feature_names := Some canonical_names, model_version := ''fallback-1.0.0''\<rparr>"

text \<open>\<open>WaterQualityPredictor.__init__\<close>.\<close>

definition new_predictor :: "string \<Rightarrow> WaterQualityPredictor" where
  "new_predictor dir =
     \<lparr>model_dir = dir, model = None, scaler = None, feature_names = None,
      model_version = ''1.0.0'', is_loaded = False\<rparr>"

definition init :: "string \<Rightarrow> storage \<Rightarrow> WaterQualityPredictor" where
  "init dir st =
     (let self = new_predictor dir;
          (ok, self) = load_model self st
      in if \<not> ok then initialize_fallback_model self else self)"

datatype input_data =
    InObj PredictionInput
  | InDict "string \<rightharpoonup> pyfloat"
  | InList "pyfloat list"

definition list_kwargs :: "pyfloat list \<Rightarrow> (string \<rightharpoonup> pyfloat)" where
  "list_kwargs xs =
     [''pH'' \<mapsto> xs ! 0, ''Hardness'' \<mapsto> xs ! 1, ''Solids'' \<mapsto> xs ! 2,
      ''Chloramines'' \<mapsto> xs ! 3, ''Sulfate'' \<mapsto> xs ! 4, ''Conductivity'' \<mapsto> xs ! 5,
      ''Organic_carbon'' \<mapsto> xs ! 6, ''Trihalomethanes'' \<mapsto> xs ! 7, ''Turbidity'' \<mapsto> xs ! 8]"

text \<open>The conversion at the head of \<open>predict\<close>.\<close>

definition convert_input :: "input_data \<Rightarrow> error + PredictionInput" where
  "convert_input input_data =
     (case input_data of
        InDict d \<Rightarrow> PredictionInput_new d
      | InList xs \<Rightarrow>
          if length xs \<noteq> 9 then Inl (ValueError ''Input list must have exactly 9 features'')
          else PredictionInput_new (list_kwargs xs)
      | InObj inp \<Rightarrow> Inr inp)"

text \<open>\<open>predict\<close> up to the two calls of the classifier: the label and the probability
  vector of the first (only) row.\<close>

definition model_outputs :: "WaterQualityPredictor \<Rightarrow> input_data \<Rightarrow> error + (int \<times> pyfloat list)" where
  "model_outputs self input_data =
     (case convert_input input_data of
        Inl e \<Rightarrow> Inl e
      | Inr inp \<Rightarrow>
          (let features = to_array inp in
           case feature_names self of
             None \<Rightarrow> Inl TypeError
           | Some names \<Rightarrow>
               (case validate_inference_data features names of
                  Inl e \<Rightarrow> Inl e
                | Inr lg \<Rightarrow>
                    (case scaler self of
                       None \<Rightarrow> Inl AttributeError
                     | Some sc \<Rightarrow>
                         (case transform sc features of
                            Inl e \<Rightarrow> Inl e
                          | Inr features_scaled \<Rightarrow>
                              (case model self of
                                 None \<Rightarrow> Inl AttributeError
                               | Some m \<Rightarrow>
                                   (case clf_predict m features_scaled of
                                      Inl e \<Rightarrow> Inl e
                                    | Inr [] \<Rightarrow> Inl IndexError
                                    | Inr (pred # _) \<Rightarrow>
                                        (case clf_predict_proba m features_scaled of
                                           Inl e \<Rightarrow> Inl e
                                         | Inr [] \<Rightarrow> Inl IndexError
                                         | Inr (probabilities # _) \<Rightarrow>
                                             Inr (pred, probabilities)))))))))"

definition assemble_output ::
  "WaterQualityPredictor \<Rightarrow> int \<Rightarrow> pyfloat list \<Rightarrow> error + PredictionOutput" where
  "assemble_output self pred probabilities =
     (case probabilities of
        [] \<Rightarrow> Inl IndexError
      | p0 # rest \<Rightarrow>
          (let prob = (if length probabilities > 1 then probabilities ! 1 else p0);
               conf = (if length probabilities > 1 then py_max_from p0 rest else p0);
               res = (if pred = 1 then ''Safe'' else ''Not Safe'')
           in PredictionOutput_new pred prob conf res (model_version self)
                (case feature_names self of Some names \<Rightarrow> names | None \<Rightarrow> [])))"

definition predict :: "WaterQualityPredictor \<Rightarrow> input_data \<Rightarrow> error + PredictionOutput" where
  "predict self input_data =
     (case model_outputs self input_data of
        Inl e \<Rightarrow> Inl e
      | Inr (pred, probabilities) \<Rightarrow> assemble_output self pred probabilities)"

definition predict_batch ::
  "WaterQualityPredictor \<Rightarrow> input_data list \<Rightarrow> error + PredictionOutput list" where
  "predict_batch self input_batch = for_each (predict self) input_batch []"

record model_info =
  model_loaded :: bool
  info_model_version :: string
  info_feature_names :: "string list option"
  info_model_type :: "string option"
  info_scaler_type :: "string option"

definition get_model_info :: "WaterQualityPredictor \<Rightarrow> model_info" where
  "get_model_info self =
     \<lparr>model_loaded = is_loaded self, info_model_version = model_version self,
      info_feature_names = feature_names self,
      info_model_type = map_option model_type (model self),
      info_scaler_type = map_option scaler_type (scaler self)\<rparr>"

section \<open>Evaluation (utils/model\_evaluator.py)\<close>

text \<open>A value of the results dictionary: a number, a flag, or any other object.\<close>

datatype rvalue = RNum real | RBool bool | ROther

type_synonym results = "string \<rightharpoonup> rvalue"

definition dict_get :: "results \<Rightarrow> string \<Rightarrow> rvalue \<Rightarrow> rvalue" where
  "dict_get d k dflt = (case d k of Some v \<Rightarrow> v | None \<Rightarrow> dflt)"

text \<open>The number a value stands for in arithmetic (\<open>True\<close> is 1); \<open>None\<close> where the
  arithmetic raises, which the bare \<open>except\<close> turns into 0.0.\<close>

definition as_number :: "rvalue \<Rightarrow> real option" where
  "as_number v = (case v of RNum r \<Rightarrow> Some r | RBool b \<Rightarrow> Some (if b then 1 else 0) | ROther \<Rightarrow> None)"

definition calculate_overfitting :: "results \<Rightarrow> real" where
  "calculate_overfitting res =
     (let train_f1 = dict_get res ''train_f1'' (RNum 0);
          test_f1 = dict_get res ''f1'' (RNum 0)
      in case as_number train_f1 of
           None \<Rightarrow> 0
         | Some tr \<Rightarrow>
             if tr = 0 then 0
             else (case as_number test_f1 of
                     None \<Rightarrow> 0
                   | Some te \<Rightarrow> (let overfitting_score = (tr - te) / tr in max 0 overfitting_score)))"

section \<open>Training (train/trainer.py)\<close>

record WaterQualityTrainer =
  t_model_dir :: string
  t_model :: "classifier option"
  t_scaler :: "scaler_obj option"
  t_feature_names :: "string list"

datatype artifact = AModel classifier | AScaler scaler_obj | ANames "string list"

type_synonym disk = "string \<rightharpoonup> artifact"

text \<open>\<open>joblib.dump\<close> is a parameter: it writes the file or raises, and \<open>Inl\<close> carries
  the text of the exception.\<close>

type_synonym dump = "artifact \<Rightarrow> string \<Rightarrow> disk \<Rightarrow> string + disk"

definition joblib_dump :: dump where
  "joblib_dump obj path d = Inr (d(path \<mapsto> obj))"

definition save_model :: "WaterQualityTrainer \<Rightarrow> dump \<Rightarrow> disk \<Rightarrow> bool \<times> disk \<times> log" where
  "save_model self dmp d =
     (case (t_model self, t_scaler self) of
        (Some m, Some sc) \<Rightarrow>
          (let model_path = path_join (t_model_dir self) ''model.pkl'';
               scaler_path = path_join (t_model_dir self) ''scaler.pkl''
           in case dmp (AModel m) model_path d of
                Inl msg \<Rightarrow> (False, d, [(ERROR, ''Error saving model: '' @ msg)])
              | Inr d1 \<Rightarrow>
                  (case dmp (AScaler sc) scaler_path d1 of
                     Inl msg \<Rightarrow> (False, d1, [(ERROR, ''Error saving model: '' @ msg)])
                   | Inr d2 \<Rightarrow>
                       (let lg = [(INFO, ''Model saved to '' @ model_path),
                                  (INFO, ''Scaler saved to '' @ scaler_path)];
                            feature_path = path_join (t_model_dir self) ''features.pkl''
                        in case dmp (ANames (t_feature_names self)) feature_path d2 of
                             Inl msg \<Rightarrow>
                               (False, d2, lg @ [(ERROR, ''Error saving model: '' @ msg)])
                           | Inr d3 \<Rightarrow> (True, d3, lg))))
      | _ \<Rightarrow> (False, d, [(ERROR, ''Error saving model: Model or scaler not trained'')]))"

text \<open>
  The three stages before saving call pandas and scikit-learn; they are parameters.
  \<open>preprocess_data\<close> fits and stores the scaler, \<open>train_model\<close> stores the best
  estimator and returns the evaluation results.
\<close>

record ('d, 'x) stages =
  load_data :: "string \<Rightarrow> error + 'd"
  preprocess_data :: "'d \<Rightarrow> error + (scaler_obj \<times> 'x)"
  train_model :: "'x \<Rightarrow> error + (classifier \<times> results)"

definition train_from_file ::
  "WaterQualityTrainer \<Rightarrow> ('d, 'x) stages \<Rightarrow> dump \<Rightarrow> string \<Rightarrow> disk
     \<Rightarrow> error + (results \<times> WaterQualityTrainer \<times> disk)" where
  "train_from_file self stg dmp data_path d =
     (case load_data stg data_path of
        Inl e \<Rightarrow> Inl e
      | Inr data \<Rightarrow>
          (case preprocess_data stg data of
             Inl e \<Rightarrow> Inl e
           | Inr (sc, X) \<Rightarrow>
               (let self = self\<lparr>t_scaler := Some sc\<rparr> in
                case train_model stg X of
                  Inl e \<Rightarrow> Inl e
                | Inr (m, res) \<Rightarrow>
                    (let self = self\<lparr>t_model := Some m\<rparr>;
                         (saved, d', lg) = save_model self dmp d
                     in if saved then Inr (res(''model_saved'' \<mapsto> RBool True), self, d')
                        else Inr (res(''model_saved'' \<mapsto> RBool False), self, d')))))"

section \<open>A service started with no trained artifact\<close>

definition no_files :: storage where
  "no_files =
     \<lparr>path_exists = (\<lambda>p. False),
      load_classifier = (\<lambda>p. Inl (OtherError ''No such file or directory'')),
      load_scaler = (\<lambda>p. Inl (OtherError ''No such file or directory'')),
      load_names = (\<lambda>p. Inl (OtherError ''No such file or directory''))\<rparr>"

definition fallback_engine :: WaterQualityPredictor where
  "fallback_engine = init ''ml'' no_files"

section \<open>Valid inputs\<close>

text \<open>
  The inputs the specification calls valid (section 3, FeatureRecord): nine finite values, pH in \<open>[0, 14]\<close>, the
  others at least 0, given as a record, as a dictionary with the nine names, or as a list
  of nine values.
\<close>

definition nonneg_finite :: "pyfloat \<Rightarrow> bool" where
  "nonneg_finite v = (case v of Finite r \<Rightarrow> 0 \<le> r | _ \<Rightarrow> False)"

definition valid_record :: "PredictionInput \<Rightarrow> bool" where
  "valid_record inp =
     (list_all nonneg_finite (elems (to_array inp)) \<and> fle (pH inp) (Finite 14))"

definition valid_input :: "input_data \<Rightarrow> bool" where
  "valid_input input_data =
     (case input_data of
        InObj inp \<Rightarrow> valid_record inp
      | InDict d \<Rightarrow> list_all (\<lambda>n. d n \<noteq> None) canonical_names \<and> valid_record (make_record d)
      | InList xs \<Rightarrow> length xs = 9 \<and> valid_record (make_record (list_kwargs xs)))"

text \<open>The record a valid input stands for.\<close>

definition record_of :: "input_data \<Rightarrow> PredictionInput" where
  "record_of input_data =
     (case input_data of
        InObj inp \<Rightarrow> inp
      | InDict d \<Rightarrow> make_record d
      | InList xs \<Rightarrow> make_record (list_kwargs xs))"

text \<open>
  The rules of the fallback classifier as the specification words them (section 4.2),
  read on the real values. These definitions follow the specification; the theorems on
  \<open>MockModel\<close> compare the code with them.
\<close>

definition ph_in_range :: "pyfloat \<Rightarrow> bool" where
  "ph_in_range v = (case v of Finite r \<Rightarrow> 6.5 \<le> r \<and> r \<le> 8.5 | _ \<Rightarrow> False)"

definition turbidity_in_range :: "pyfloat \<Rightarrow> bool" where
  "turbidity_in_range v = (case v of Finite r \<Rightarrow> r \<le> 5.0 | NegInf \<Rightarrow> True | _ \<Rightarrow> False)"

definition rule_label :: "pyfloat \<Rightarrow> pyfloat \<Rightarrow> int" where
  "rule_label p t = (if ph_in_range p \<and> turbidity_in_range t then 1 else 0)"

definition clamp :: "real \<Rightarrow> real \<Rightarrow> real \<Rightarrow> real" where
  "clamp lo hi x = (if x < lo then lo else if hi < x then hi else x)"

definition rule_safe_prob :: "pyfloat \<Rightarrow> pyfloat \<Rightarrow> real" where
  "rule_safe_prob p t =
     clamp 0.01 0.99
       (0.5 + (if ph_in_range p then 0.25 else 0) + (if turbidity_in_range t then 0.15 else 0))"

text \<open>An engine that holds the fallback pair and the canonical feature names.\<close>

definition uses_fallback :: "WaterQualityPredictor \<Rightarrow> bool" where
  "uses_fallback self =
     (model self = Some MockModel \<and> scaler self = Some MockScaler
      \<and> feature_names self = Some canonical_names)"

text \<open>The sample of the test suite (\<open>tests/conftest.py\<close>), and the same sample with a
  turbidity above 5.\<close>

definition sample_features :: "pyfloat list" where
  "sample_features =
     [Finite 7.0, Finite 200.0, Finite 20000.0, Finite 7.0, Finite 300.0, Finite 500.0,
      Finite 15.0, Finite 80.0, Finite 4.0]"

definition turbid_features :: "pyfloat list" where
  "turbid_features =
     [Finite 7.0, Finite 200.0, Finite 20000.0, Finite 7.0, Finite 300.0, Finite 500.0,
      Finite 15.0, Finite 80.0, Finite 6.0]"

text \<open>Two arrays of one row: a negative hardness, and a pH above 14.\<close>

definition negative_hardness :: ndarray where
  "negative_hardness =
     \<lparr>shape = [1, 9],
      elems = [Finite 7.0, Finite (- 200.0), Finite 20000.0, Finite 7.0, Finite 300.0,
               Finite 500.0, Finite 15.0, Finite 80.0, Finite 4.0]\<rparr>"

definition ph_above_14 :: ndarray where
  "ph_above_14 =
     \<lparr>shape = [1, 9],
      elems = [Finite 15.0, Finite 200.0, Finite 20000.0, Finite 7.0, Finite 300.0,
               Finite 500.0, Finite 15.0, Finite 80.0, Finite 4.0]\<rparr>"

text \<open>A training run whose stages succeed, a disk that refuses every write, and the
  trainer as \<open>WaterQualityTrainer.__init__\<close> leaves it.\<close>

definition sample_stages :: "(unit, unit) stages" where
  "sample_stages =
     \<lparr>load_data = (\<lambda>p. Inr ()), preprocess_data = (\<lambda>d. Inr (MockScaler, ())),
      train_model = (\<lambda>x. Inr (MockModel, [''train_f1'' \<mapsto> RNum 0.9, ''f1'' \<mapsto> RNum 0.8]))\<rparr>"

definition read_only_dump :: dump where
  "read_only_dump obj path d = Inl ''Permission denied''"

definition new_trainer :: "string \<Rightarrow> WaterQualityTrainer" where
  "new_trainer dir =
     \<lparr>t_model_dir = dir, t_model = None, t_scaler = None, t_feature_names = canonical_names\<rparr>"

section \<open>Properties\<close>

declare show_nat.simps [simp del]

lemma fle_Finite_left [simp]:
  "fle (Finite a) v = (case v of Finite b \<Rightarrow> a \<le> b | PosInf \<Rightarrow> True | _ \<Rightarrow> False)"
  by (cases v) simp_all

lemma fle_Finite_right [simp]:
  "fle v (Finite b) = (case v of Finite a \<Rightarrow> a \<le> b | NegInf \<Rightarrow> True | _ \<Rightarrow> False)"
  by (cases v) simp_all

subsection \<open>Loops\<close>

lemma for_each_ok:
  "(\<And>x. x \<in> set xs \<Longrightarrow> f x = Inr (g x)) \<Longrightarrow> for_each f xs acc = Inr (acc @ map g xs)"
  by (induction xs arbitrary: acc) simp_all

lemma for_each_fail:
  "k < length xs \<Longrightarrow> f (xs ! k) = Inl e \<Longrightarrow> (\<And>j. j < k \<Longrightarrow> \<exists>y. f (xs ! j) = Inr y)
     \<Longrightarrow> for_each f xs acc = Inl e"
proof (induction xs arbitrary: acc k)
  case Nil
  then show ?case by simp
next
  case (Cons x xs)
  show ?case
  proof (cases k)
    case 0
    with Cons.prems show ?thesis by simp
  next
    case (Suc k')
    from Cons.prems(3)[of 0] Suc obtain y where y: "f x = Inr y" by auto
    have "for_each f xs (acc @ [y]) = Inl e"
    proof (rule Cons.IH[of k'])
      show "k' < length xs" using Cons.prems(1) Suc by simp
      show "f (xs ! k') = Inl e" using Cons.prems(2) Suc by simp
      show "\<exists>y. f (xs ! j) = Inr y" if "j < k'" for j
        using Cons.prems(3)[of "Suc j"] that Suc by simp
    qed
    with y show ?thesis by simp
  qed
qed

lemma check_ranges_ok:
  assumes "\<And>i lo hi. (i, lo, hi) \<in> set rs \<Longrightarrow> i < shape f ! 1 \<Longrightarrow>
             i < length names \<and> \<not> list_ex (\<lambda>v. flt v (Finite (real lo))) (column f i)"
  shows "check_ranges f names rs lg =
           Inr (lg @ map (\<lambda>(i, lo, hi). (WARNING, above_msg (names ! i) hi))
                      (filter (\<lambda>(i, lo, hi). i < shape f ! 1 \<and>
                                  list_ex (\<lambda>v. fgt v (Finite (real hi))) (column f i)) rs))"
  using assms
proof (induction rs arbitrary: lg)
  case Nil
  then show ?case by simp
next
  case (Cons r rs)
  obtain i lo hi where r: "r = (i, lo, hi)" by (cases r)
  have IH: "\<And>lg. check_ranges f names rs lg =
           Inr (lg @ map (\<lambda>(i, lo, hi). (WARNING, above_msg (names ! i) hi))
                      (filter (\<lambda>(i, lo, hi). i < shape f ! 1 \<and>
                                  list_ex (\<lambda>v. fgt v (Finite (real hi))) (column f i)) rs))"
    by (rule Cons.IH) (use Cons.prems in auto)
  have hd: "i < shape f ! 1 \<Longrightarrow>
              i < length names \<and> \<not> list_ex (\<lambda>v. flt v (Finite (real lo))) (column f i)"
    using Cons.prems[of i lo hi] r by simp
  show ?case
    using hd by (simp add: r IH Let_def)
qed

lemma check_ranges_fail:
  assumes "(i, lo, hi) \<in> set rs" "i < shape f ! 1"
    "list_ex (\<lambda>v. flt v (Finite (real lo))) (column f i)"
    "\<And>j lo hi. (j, lo, hi) \<in> set rs \<Longrightarrow> j < shape f ! 1 \<Longrightarrow> j < length names"
  shows "\<exists>j lo' hi'. (j, lo', hi') \<in> set rs \<and> j < shape f ! 1 \<and>
            list_ex (\<lambda>v. flt v (Finite (real lo'))) (column f j) \<and>
            check_ranges f names rs lg = Inl (ValueError (below_msg (names ! j) lo'))"
  using assms
proof (induction rs arbitrary: lg)
  case Nil
  then show ?case by simp
next
  case (Cons r rs)
  obtain j lo' hi' where r: "r = (j, lo', hi')" by (cases r)
  have names: "j < shape f ! 1 \<Longrightarrow> j < length names"
    using Cons.prems(4)[of j lo' hi'] r by simp
  show ?case
  proof (cases "j < shape f ! 1 \<and> list_ex (\<lambda>v. flt v (Finite (real lo'))) (column f j)")
    case True
    then have "check_ranges f names (r # rs) lg = Inl (ValueError (below_msg (names ! j) lo'))"
      using names by (simp add: r)
    with True r show ?thesis by auto
  next
    case False
    with Cons.prems(1,2,3) r have mem: "(i, lo, hi) \<in> set rs" by auto
    have IH: "\<And>lg. \<exists>j lo' hi'. (j, lo', hi') \<in> set rs \<and> j < shape f ! 1 \<and>
            list_ex (\<lambda>v. flt v (Finite (real lo'))) (column f j) \<and>
            check_ranges f names rs lg = Inl (ValueError (below_msg (names ! j) lo'))"
      by (rule Cons.IH[OF mem Cons.prems(2,3)]) (use Cons.prems(4) in auto)
    have step: "check_ranges f names (r # rs) lg = check_ranges f names rs lg
       \<or> (\<exists>w. check_ranges f names (r # rs) lg = check_ranges f names rs (lg @ [w]))"
      using False names by (auto simp add: r Let_def)
    then show ?thesis
    proof
      assume "check_ranges f names (r # rs) lg = check_ranges f names rs lg"
      with IH[of lg] show ?thesis by auto
    next
      assume "\<exists>w. check_ranges f names (r # rs) lg = check_ranges f names rs (lg @ [w])"
      then obtain w where
        "check_ranges f names (r # rs) lg = check_ranges f names rs (lg @ [w])" ..
      with IH[of "lg @ [w]"] show ?thesis by auto
    qed
  qed
qed

subsection \<open>The fallback pair\<close>

lemma fallback_engine_eq:
  "fallback_engine = \<lparr>model_dir = ''ml'', model = Some MockModel, scaler = Some MockScaler,
      feature_names = Some canonical_names, model_version = ''fallback-1.0.0'',
      is_loaded = False\<rparr>"
  by (simp add: fallback_engine_def init_def new_predictor_def load_model_def no_files_def
      initialize_fallback_model_def Let_def)

lemma mock_predict_row:
  "MockModel_predict_row (p # xs) = Inr (rule_label p (row_turbidity (p # xs)))"
  by (auto simp add: MockModel_predict_row_def row_pH_def rule_label_def ph_in_range_def
      turbidity_in_range_def Let_def split: pyfloat.splits)

lemma mock_proba_row:
  "MockModel_proba_row (p # xs)
     = Inr [Finite (1 - rule_safe_prob p (row_turbidity (p # xs))),
            Finite (rule_safe_prob p (row_turbidity (p # xs)))]"
  by (auto simp add: MockModel_proba_row_def row_pH_def rule_safe_prob_def ph_in_range_def
      turbidity_in_range_def clamp_def Let_def split: pyfloat.splits)

lemma rule_safe_prob_cases:
  "rule_safe_prob p t = (if ph_in_range p then (if turbidity_in_range t then 0.9 else 0.75)
                         else (if turbidity_in_range t then 0.65 else 0.5))"
  by (simp add: rule_safe_prob_def clamp_def)


lemma valid_record_validate:
  assumes "list_all nonneg_finite (elems (to_array inp))"
  shows "\<exists>lg. validate_inference_data (to_array inp) canonical_names = Inr lg"
proof -
  have cols: "\<And>i. column (to_array inp) i = [elems (to_array inp) ! i]"
    by (simp add: column_def to_array_def)
  have nn: "\<And>i. i < 9 \<Longrightarrow> nonneg_finite (elems (to_array inp) ! i)"
    using assms by (simp add: list_all_length to_array_def)
  have nolow: "\<And>i lo hi. (i, lo, hi) \<in> set feature_ranges \<Longrightarrow> i < shape (to_array inp) ! 1 \<Longrightarrow>
      i < length canonical_names \<and>
      \<not> list_ex (\<lambda>v. flt v (Finite (real lo))) (column (to_array inp) i)"
  proof -
    fix i lo hi
    assume m: "(i, lo, hi) \<in> set feature_ranges" and "i < shape (to_array inp) ! 1"
    then have i9: "i < 9" and lo: "lo = 0" by (auto simp add: feature_ranges_def)
    from nn[OF i9] obtain r where r: "elems (to_array inp) ! i = Finite r" "0 \<le> r"
      by (auto simp add: nonneg_finite_def split: pyfloat.splits)
    show "i < length canonical_names \<and>
      \<not> list_ex (\<lambda>v. flt v (Finite (real lo))) (column (to_array inp) i)"
      using i9 r lo by (simp add: cols canonical_names_def flt_def)
  qed
  have fin: "\<not> list_ex isnan (elems (to_array inp))" "\<not> list_ex isinf (elems (to_array inp))"
    using assms
    by (auto simp add: list_all_iff list_ex_iff nonneg_finite_def isnan_def isinf_def
        split: pyfloat.splits)
  have sh: "length (shape (to_array inp)) = 2" "shape (to_array inp) ! 1 = length canonical_names"
    by (simp_all add: to_array_def canonical_names_def)
  have "\<exists>lg. check_ranges (to_array inp) canonical_names feature_ranges [] = Inr lg"
    using check_ranges_ok[of feature_ranges "to_array inp" canonical_names "[]"] nolow
    by blast
  then obtain lg where "check_ranges (to_array inp) canonical_names feature_ranges [] = Inr lg" ..
  then show ?thesis
    using fin sh by (simp add: validate_inference_data_def)
qed

lemma nonneg_finite_fle0: "nonneg_finite v \<Longrightarrow> fle (Finite 0) v"
  by (cases v) (simp_all add: nonneg_finite_def)

lemma check_field_ok:
  "kw name = Some v \<Longrightarrow> nonneg_finite v \<Longrightarrow> check_field kw name 0 None no_validator = []"
  by (cases v) (simp_all add: check_field_def no_validator_def nonneg_finite_def)

lemma check_field_ph_ok:
  "kw name = Some v \<Longrightarrow> nonneg_finite v \<Longrightarrow> fle v (Finite 14) \<Longrightarrow>
   check_field kw name 0 (Some 14) validate_ph = []"
  by (cases v) (simp_all add: check_field_def validate_ph_def nonneg_finite_def)

lemma PredictionInput_new_ok:
  assumes "list_all (\<lambda>n. kw n \<noteq> None) canonical_names" "valid_record (make_record kw)"
  shows "PredictionInput_new kw = Inr (make_record kw)"
proof -
  from assms(1) obtain v0 v1 v2 v3 v4 v5 v6 v7 v8 where kw:
    "kw ''pH'' = Some v0" "kw ''Hardness'' = Some v1" "kw ''Solids'' = Some v2"
    "kw ''Chloramines'' = Some v3" "kw ''Sulfate'' = Some v4" "kw ''Conductivity'' = Some v5"
    "kw ''Organic_carbon'' = Some v6" "kw ''Trihalomethanes'' = Some v7"
    "kw ''Turbidity'' = Some v8"
    by (auto simp add: canonical_names_def)
  from assms(2) have nn: "nonneg_finite v0" "nonneg_finite v1" "nonneg_finite v2"
    "nonneg_finite v3" "nonneg_finite v4" "nonneg_finite v5" "nonneg_finite v6"
    "nonneg_finite v7" "nonneg_finite v8" "fle v0 (Finite 14)"
    by (simp_all add: valid_record_def make_record_def to_array_def kw)
  show ?thesis
    unfolding PredictionInput_new_def
    by (simp only: check_field_ok[of kw "''Hardness''" v1, OF kw(2) nn(2)] check_field_ok[of kw "''Solids''" v2, OF kw(3) nn(3)]
        check_field_ok[of kw "''Chloramines''" v3, OF kw(4) nn(4)] check_field_ok[of kw "''Sulfate''" v4, OF kw(5) nn(5)]
        check_field_ok[of kw "''Conductivity''" v5, OF kw(6) nn(6)] check_field_ok[of kw "''Organic_carbon''" v6, OF kw(7) nn(7)]
        check_field_ok[of kw "''Trihalomethanes''" v7, OF kw(8) nn(8)] check_field_ok[of kw "''Turbidity''" v8, OF kw(9) nn(9)]
        check_field_ph_ok[of kw "''pH''" v0, OF kw(1) nn(1) nn(10)] Let_def append_Nil) simp
qed

lemma list_kwargs_all: "list_all (\<lambda>n. list_kwargs xs n \<noteq> None) canonical_names"
  by (simp add: list_kwargs_def canonical_names_def)

lemma convert_input_valid:
  assumes "valid_input i"
  shows "convert_input i = Inr (record_of i) \<and> valid_record (record_of i)"
proof (cases i)
  case (InObj inp)
  with assms show ?thesis by (simp add: convert_input_def record_of_def valid_input_def)
next
  case (InDict d)
  with assms show ?thesis
    by (simp add: convert_input_def record_of_def valid_input_def PredictionInput_new_ok)
next
  case (InList xs)
  with assms show ?thesis
    using PredictionInput_new_ok[OF list_kwargs_all, of xs]
    by (simp add: convert_input_def record_of_def valid_input_def)
qed

lemma rows_of_to_array: "rows_of (to_array inp) = [elems (to_array inp)]"
  by (simp add: rows_of_def to_array_def)

lemma model_outputs_fallback:
  assumes "uses_fallback self" "valid_input i"
  shows "model_outputs self i =
           Inr (rule_label (pH (record_of i)) (Turbidity (record_of i)),
                [Finite (1 - rule_safe_prob (pH (record_of i)) (Turbidity (record_of i))),
                 Finite (rule_safe_prob (pH (record_of i)) (Turbidity (record_of i)))])"
proof -
  from convert_input_valid[OF assms(2)]
  have conv: "convert_input i = Inr (record_of i)" and val: "valid_record (record_of i)"
    by simp_all
  from val obtain lg where
    v: "validate_inference_data (to_array (record_of i)) canonical_names = Inr lg"
    using valid_record_validate[of "record_of i"] by (auto simp add: valid_record_def)
  have row: "elems (to_array (record_of i)) = pH (record_of i) # tl (elems (to_array (record_of i)))"
    by (simp add: to_array_def)
  have turb: "row_turbidity (elems (to_array (record_of i))) = Turbidity (record_of i)"
    by (simp add: to_array_def row_turbidity_def)
  have p1: "MockModel_predict [elems (to_array (record_of i))]
              = Inr [rule_label (pH (record_of i)) (Turbidity (record_of i))]"
    using mock_predict_row[of "pH (record_of i)" "tl (elems (to_array (record_of i)))"]
    by (simp add: MockModel_predict_def row[symmetric] turb)
  have p2: "MockModel_predict_proba [elems (to_array (record_of i))]
              = Inr [[Finite (1 - rule_safe_prob (pH (record_of i)) (Turbidity (record_of i))),
                      Finite (rule_safe_prob (pH (record_of i)) (Turbidity (record_of i)))]]"
    using mock_proba_row[of "pH (record_of i)" "tl (elems (to_array (record_of i)))"]
    by (simp add: MockModel_predict_proba_def row[symmetric] turb)
  show ?thesis
    using assms(1)
    by (simp add: model_outputs_def conv v uses_fallback_def MockScaler_def MockModel_def
        rows_of_to_array p1 p2)
qed

lemma py_max_two: "py_max_from (Finite a) [Finite b] = Finite (max a b)"
  by (auto simp add: fgt_def flt_def max_def)

lemma rule_safe_prob_bounds: "1 / 2 \<le> rule_safe_prob p t \<and> rule_safe_prob p t \<le> 1"
  by (simp add: rule_safe_prob_cases)

lemma predict_fallback:
  assumes "uses_fallback self" "valid_input i"
  shows "predict self i =
           Inr \<lparr>prediction = rule_label (pH (record_of i)) (Turbidity (record_of i)),
                probability = Finite (rule_safe_prob (pH (record_of i)) (Turbidity (record_of i))),
                confidence = Finite (rule_safe_prob (pH (record_of i)) (Turbidity (record_of i))),
                result = (if rule_label (pH (record_of i)) (Turbidity (record_of i)) = 1
                          then ''Safe'' else ''Not Safe''),
                out_model_version = model_version self,
                features_used = canonical_names\<rparr>"
proof -
  let ?sp = "rule_safe_prob (pH (record_of i)) (Turbidity (record_of i))"
  have b: "1 / 2 \<le> ?sp" "?sp \<le> 1" using rule_safe_prob_bounds by simp_all
  have mx: "max (1 - ?sp) ?sp = ?sp"
    using b by simp
  have fn: "feature_names self = Some canonical_names"
    using assms(1) by (simp add: uses_fallback_def)
  show ?thesis
    using b
    by (simp add: predict_def model_outputs_fallback[OF assms] assemble_output_def mx fn
        PredictionOutput_new_def check_unit_def Let_def py_max_two
        del: py_max_from.simps)
qed

lemma fallback_engine_uses_fallback: "uses_fallback fallback_engine"
  by (simp add: fallback_engine_eq uses_fallback_def)

subsection \<open>Rejected inputs\<close>

text \<open>
  C4. The list \<open>[15.0, 200.0, 20000.0, 7.0, 300.0, 500.0, 15.0, 80.0, 4.0]\<close> is rejected
  with the range violation of pH against its maximum 14, whatever scaler and classifier
  the engine holds: the failure is decided before either is called.
\<close>

theorem predict_rejects_ph_15:
  "predict self (InList [Finite 15.0, Finite 200.0, Finite 20000.0, Finite 7.0, Finite 300.0,
                         Finite 500.0, Finite 15.0, Finite 80.0, Finite 4.0])
     = Inl (ValidationError [(''pH'', NotLe 14)])"
  by (simp add: predict_def model_outputs_def convert_input_def PredictionInput_new_def
      list_kwargs_def check_field_def validate_ph_def no_validator_def)

text \<open>
  C5, as the claim states it: the message of the error raised for a list of the wrong
  length names the received length. It does not: a list of three values and a list of
  four values get the same message, in which the digit 3 does not occur.
\<close>

theorem predict_wrong_length_message_counterexample:
  "predict fallback_engine (InList [Finite 7.0, Finite 200.0, Finite 20000.0])
     = Inl (ValueError ''Input list must have exactly 9 features'')
   \<and> predict fallback_engine (InList [Finite 7.0, Finite 200.0, Finite 20000.0, Finite 7.0])
     = Inl (ValueError ''Input list must have exactly 9 features'')
   \<and> show_nat (length [Finite 7.0, Finite 200.0, Finite 20000.0]) = ''3''
   \<and> CHR ''3'' \<notin> set ''Input list must have exactly 9 features''"
  by (simp add: predict_def model_outputs_def convert_input_def show_nat.simps digit_char_def)

text \<open>
  C5, amended: every list whose length is not 9 is rejected with the shape error whose
  message states the expected length, 9, and is the same whatever length was received.
\<close>

theorem predict_wrong_length:
  "length xs \<noteq> 9 \<Longrightarrow>
   predict self (InList xs) = Inl (ValueError ''Input list must have exactly 9 features'')"
  by (simp add: predict_def model_outputs_def convert_input_def)

theorem predict_wrong_length_witness:
  "length [Finite 7.0, Finite 200.0] \<noteq> 9
   \<and> predict fallback_engine (InList [Finite 7.0, Finite 200.0])
       = Inl (ValueError ''Input list must have exactly 9 features'')"
  using predict_wrong_length [of "[Finite 7.0, Finite 200.0]" fallback_engine] by simp

subsection \<open>The overfitting score\<close>

text \<open>
  C7. With a nonzero training F1 the score is \<open>max 0 ((train - test) / train)\<close>; it is 0
  when the training F1 is 0 (or absent), and 0 when both F1 scores are equal; and for a
  fixed positive training F1 it tends to 1 as the test F1 tends to 0.
\<close>

theorem calculate_overfitting_spec:
  "(res ''train_f1'' = Some (RNum tr) \<and> res ''f1'' = Some (RNum te) \<and> tr \<noteq> 0
      \<longrightarrow> calculate_overfitting res = max 0 ((tr - te) / tr))
   \<and> (res ''train_f1'' = Some (RNum 0) \<or> res ''train_f1'' = None
      \<longrightarrow> calculate_overfitting res = 0)
   \<and> (res ''train_f1'' = Some (RNum tr) \<and> res ''f1'' = Some (RNum tr)
      \<longrightarrow> calculate_overfitting res = 0)
   \<and> (0 < tr \<longrightarrow>
        ((\<lambda>te. calculate_overfitting (res(''train_f1'' \<mapsto> RNum tr, ''f1'' \<mapsto> RNum te)))
           \<longlongrightarrow> 1) (at 0))"
proof (intro conjI impI)
  assume "res ''train_f1'' = Some (RNum tr) \<and> res ''f1'' = Some (RNum te) \<and> tr \<noteq> 0"
  then show "calculate_overfitting res = max 0 ((tr - te) / tr)"
    by (simp add: calculate_overfitting_def dict_get_def as_number_def)
next
  assume "res ''train_f1'' = Some (RNum 0) \<or> res ''train_f1'' = None"
  then show "calculate_overfitting res = 0"
    by (auto simp add: calculate_overfitting_def dict_get_def as_number_def)
next
  assume "res ''train_f1'' = Some (RNum tr) \<and> res ''f1'' = Some (RNum tr)"
  then show "calculate_overfitting res = 0"
    by (simp add: calculate_overfitting_def dict_get_def as_number_def)
next
  assume pos: "0 < tr"
  have "((\<lambda>te. max 0 ((tr - te) / tr)) \<longlongrightarrow> max 0 ((tr - 0) / tr)) (at 0)"
    by (intro tendsto_intros) (use pos in simp)
  moreover have "max 0 ((tr - 0) / tr) = 1"
    using pos by simp
  moreover have
    "(\<lambda>te. calculate_overfitting (res(''train_f1'' \<mapsto> RNum tr, ''f1'' \<mapsto> RNum te)))
       = (\<lambda>te. max 0 ((tr - te) / tr))"
    using pos by (simp add: calculate_overfitting_def dict_get_def as_number_def fun_eq_iff)
  ultimately show
    "((\<lambda>te. calculate_overfitting (res(''train_f1'' \<mapsto> RNum tr, ''f1'' \<mapsto> RNum te)))
        \<longlongrightarrow> 1) (at 0)"
    by simp
qed

theorem calculate_overfitting_spec_witness:
  "calculate_overfitting [''train_f1'' \<mapsto> RNum 0.8, ''f1'' \<mapsto> RNum 0.6] = 0.25
   \<and> calculate_overfitting [''train_f1'' \<mapsto> RNum 0, ''f1'' \<mapsto> RNum 0.6] = 0
   \<and> calculate_overfitting [''train_f1'' \<mapsto> RNum 0.8, ''f1'' \<mapsto> RNum 0.8] = 0
   \<and> ((\<lambda>te. calculate_overfitting [''train_f1'' \<mapsto> RNum 0.8, ''f1'' \<mapsto> RNum te])
         \<longlongrightarrow> 1) (at 0)"
  using calculate_overfitting_spec [of "[''train_f1'' \<mapsto> RNum 0.8, ''f1'' \<mapsto> RNum 0.6]" "0.8" "0.6"]
    calculate_overfitting_spec [of "[''train_f1'' \<mapsto> RNum 0, ''f1'' \<mapsto> RNum 0.6]" "0" "0.6"]
    calculate_overfitting_spec [of "[''train_f1'' \<mapsto> RNum 0.8, ''f1'' \<mapsto> RNum 0.8]" "0.8" "0.8"]
    calculate_overfitting_spec [of "Map.empty" "0.8" "0"]
  by simp

lemma for_each_some_fail:
  "x \<in> set xs \<Longrightarrow> f x = Inl e \<Longrightarrow> \<exists>e'. for_each f xs acc = Inl e'"
proof (induction xs arbitrary: acc)
  case Nil
  then show ?case by simp
next
  case (Cons a xs)
  show ?case
  proof (cases "f a")
    case (Inl e0)
    then show ?thesis by simp
  next
    case (Inr y)
    with Cons.prems have "x \<in> set xs" by auto
    from Cons.IH[OF this Cons.prems(2), of "acc @ [y]"] Inr show ?thesis by simp
  qed
qed

lemma check_unit_empty:
  "check_unit name v = [] \<Longrightarrow> \<exists>r. v = Finite r \<and> 0 \<le> r \<and> r \<le> 1"
  by (cases v) (simp_all add: check_unit_def split: if_splits)

lemma PredictionOutput_new_Inr:
  assumes "PredictionOutput_new pred prob conf res ver names = Inr out"
  shows "prediction out = pred \<and> probability out = prob \<and> confidence out = conf
         \<and> result out = res \<and> out_model_version out = ver \<and> features_used out = names
         \<and> (\<exists>p. prob = Finite p \<and> 0 \<le> p \<and> p \<le> 1)
         \<and> (\<exists>c. conf = Finite c \<and> 0 \<le> c \<and> c \<le> 1)"
proof -
  from assms have e: "check_unit ''probability'' prob = []" "check_unit ''confidence'' conf = []"
    and out: "out = \<lparr>prediction = pred, probability = prob, confidence = conf, result = res,
                   out_model_version = ver, features_used = names\<rparr>"
    by (auto simp add: PredictionOutput_new_def Let_def split: if_splits)
  from check_unit_empty[OF e(1)] check_unit_empty[OF e(2)] out show ?thesis by simp
qed

subsection \<open>Outputs of the engine\<close>

text \<open>
  C1. Whenever \<open>predict\<close> returns an output, its probability and its confidence are
  finite and lie in \<open>[0, 1]\<close>; if the classifier returned the two class probabilities
  \<open>[a, b]\<close>, the probability is \<open>b\<close> and the confidence is their maximum, and the
  confidence is at least 0.5 when the two sum to 1.
\<close>

theorem predict_output_ranges:
  assumes "predict self i = Inr out"
  shows "\<exists>p c. probability out = Finite p \<and> 0 \<le> p \<and> p \<le> 1
           \<and> confidence out = Finite c \<and> 0 \<le> c \<and> c \<le> 1
           \<and> (\<forall>lbl a b. model_outputs self i = Inr (lbl, [a, b]) \<longrightarrow>
                 probability out = b \<and> confidence out = py_max_from a [b]
                 \<and> (\<forall>x y. a = Finite x \<and> b = Finite y \<longrightarrow>
                       c = max x y \<and> (x + y = 1 \<longrightarrow> 1 / 2 \<le> c)))"
proof -
  from assms obtain pred probs where mo: "model_outputs self i = Inr (pred, probs)"
    and asm: "assemble_output self pred probs = Inr out"
    by (auto simp add: predict_def split: sum.splits)
  from asm obtain p0 rest where probs: "probs = p0 # rest"
    by (cases probs) (simp_all add: assemble_output_def)
  let ?prob = "if rest \<noteq> [] then (p0 # rest) ! 1 else p0"
  let ?conf = "if rest \<noteq> [] then py_max_from p0 rest else p0"
  have new: "PredictionOutput_new pred ?prob ?conf (if pred = 1 then ''Safe'' else ''Not Safe'')
               (model_version self)
               (case feature_names self of Some names \<Rightarrow> names | None \<Rightarrow> []) = Inr out"
    using asm by (simp add: probs assemble_output_def Let_def)
  from PredictionOutput_new_Inr[OF new] obtain p c where
    pc: "probability out = ?prob" "confidence out = ?conf"
        "?prob = Finite p" "0 \<le> p" "p \<le> 1" "?conf = Finite c" "0 \<le> c" "c \<le> 1"
    by auto
  have two: "probability out = b \<and> confidence out = py_max_from a [b]
                 \<and> (\<forall>x y. a = Finite x \<and> b = Finite y \<longrightarrow>
                       c = max x y \<and> (x + y = 1 \<longrightarrow> 1 / 2 \<le> c))"
    if "model_outputs self i = Inr (lbl, [a, b])" for lbl a b
  proof -
    from that mo probs have ab: "p0 = a" "rest = [b]" "probs = [a, b]" by simp_all
    have 1: "probability out = b" "confidence out = py_max_from a [b]"
      using pc(1,2) ab by simp_all
    have 2: "c = max x y \<and> (x + y = 1 \<longrightarrow> 1 / 2 \<le> c)" if "a = Finite x \<and> b = Finite y" for x y
    proof -
      have "Finite c = Finite (max x y)"
        using pc(6) ab that by (simp add: py_max_two del: py_max_from.simps)
      then have "c = max x y" by simp
      then show ?thesis by auto
    qed
    from 1 2 show ?thesis by blast
  qed
  show ?thesis
    using pc two by (intro exI[of _ p] exI[of _ c]) (simp only: pc(1,2), blast)
qed

lemma valid_sample: "valid_input (InList sample_features)"
  by (simp add: valid_input_def valid_record_def make_record_def list_kwargs_def to_array_def
      nonneg_finite_def sample_features_def)

lemma valid_turbid: "valid_input (InList turbid_features)"
  by (simp add: valid_input_def valid_record_def make_record_def list_kwargs_def to_array_def
      nonneg_finite_def turbid_features_def)

lemma predict_sample:
  "predict fallback_engine (InList sample_features) =
     Inr \<lparr>prediction = 1, probability = Finite 0.9, confidence = Finite 0.9, result = ''Safe'',
          out_model_version = ''fallback-1.0.0'', features_used = canonical_names\<rparr>"
  using predict_fallback[OF fallback_engine_uses_fallback valid_sample]
  by (simp add: record_of_def make_record_def list_kwargs_def rule_label_def rule_safe_prob_cases
      ph_in_range_def turbidity_in_range_def fallback_engine_eq sample_features_def)

lemma model_outputs_sample:
  "model_outputs fallback_engine (InList sample_features) = Inr (1, [Finite 0.1, Finite 0.9])"
  using model_outputs_fallback[OF fallback_engine_uses_fallback valid_sample]
  by (simp add: record_of_def make_record_def list_kwargs_def rule_label_def rule_safe_prob_cases
      ph_in_range_def turbidity_in_range_def sample_features_def)

theorem predict_output_ranges_witness:
  "predict fallback_engine (InList sample_features) =
     Inr \<lparr>prediction = 1, probability = Finite 0.9, confidence = Finite 0.9, result = ''Safe'',
          out_model_version = ''fallback-1.0.0'', features_used = canonical_names\<rparr>
   \<and> model_outputs fallback_engine (InList sample_features) = Inr (1, [Finite 0.1, Finite 0.9])
   \<and> (0.1 :: real) + 0.9 = 1 \<and> (0.9 :: real) = max 0.1 0.9 \<and> (1 / 2 :: real) \<le> 0.9
   \<and> (0 :: real) \<le> 0.9 \<and> (0.9 :: real) \<le> 1"
  using predict_output_ranges[OF predict_sample] predict_sample model_outputs_sample
  by simp

subsection \<open>The fallback classifier\<close>

text \<open>
  C2. On every matrix of 9-element rows the fallback classifier labels a row safe (1)
  exactly when its pH lies in \<open>[6.5, 8.5]\<close> and its turbidity is at most 5.0; its
  probability row is \<open>[1 - s, s]\<close>, where the safe probability \<open>s\<close> is 0.5, plus 0.25
  if the pH is in range, plus 0.15 if the turbidity is in range, clamped to
  \<open>[0.01, 0.99]\<close>. The engine with the fallback pair answers the sample
  \<open>[7.0, 200.0, 20000.0, 7.0, 300.0, 500.0, 15.0, 80.0, 4.0]\<close> with label 1, "Safe".
\<close>

theorem MockModel_rules:
  "((\<forall>x \<in> set X. length x = 9) \<longrightarrow>
      MockModel_predict X = Inr (map (\<lambda>x. rule_label (x ! 0) (x ! 8)) X)
      \<and> MockModel_predict_proba X
          = Inr (map (\<lambda>x. [Finite (1 - rule_safe_prob (x ! 0) (x ! 8)),
                             Finite (rule_safe_prob (x ! 0) (x ! 8))]) X))
   \<and> (\<exists>out. predict fallback_engine (InList sample_features) = Inr out
          \<and> prediction out = 1 \<and> result out = ''Safe'')"
proof (intro conjI impI)
  assume len: "\<forall>x \<in> set X. length x = 9"
  have r1: "MockModel_predict_row x = Inr (rule_label (x ! 0) (x ! 8))" if "x \<in> set X" for x
  proof -
    from len that have l: "length x = 9" by simp
    then obtain p xs where x: "x = p # xs" by (cases x) auto
    show ?thesis using l by (simp add: x mock_predict_row row_turbidity_def)
  qed
  have r2: "MockModel_proba_row x = Inr [Finite (1 - rule_safe_prob (x ! 0) (x ! 8)),
                          Finite (rule_safe_prob (x ! 0) (x ! 8))]" if "x \<in> set X" for x
  proof -
    from len that have l: "length x = 9" by simp
    then obtain p xs where x: "x = p # xs" by (cases x) auto
    show ?thesis using l by (simp add: x mock_proba_row row_turbidity_def)
  qed
  show "MockModel_predict X = Inr (map (\<lambda>x. rule_label (x ! 0) (x ! 8)) X)"
    using for_each_ok[of X MockModel_predict_row "\<lambda>x. rule_label (x ! 0) (x ! 8)" "[]", OF r1]
    by (simp add: MockModel_predict_def)
  show "MockModel_predict_proba X
       = Inr (map (\<lambda>x. [Finite (1 - rule_safe_prob (x ! 0) (x ! 8)),
                          Finite (rule_safe_prob (x ! 0) (x ! 8))]) X)"
    using for_each_ok[of X MockModel_proba_row "\<lambda>x. [Finite (1 - rule_safe_prob (x ! 0) (x ! 8)),
                          Finite (rule_safe_prob (x ! 0) (x ! 8))]" "[]", OF r2]
    by (simp add: MockModel_predict_proba_def)
next
  show "\<exists>out. predict fallback_engine (InList sample_features) = Inr out
          \<and> prediction out = 1 \<and> result out = ''Safe''"
    by (simp add: predict_sample)
qed

theorem MockModel_rules_witness:
  "length sample_features = 9 \<and> length turbid_features = 9
   \<and> MockModel_predict [sample_features, turbid_features] = Inr [1, 0]
   \<and> MockModel_predict_proba [sample_features, turbid_features]
       = Inr [[Finite 0.1, Finite 0.9], [Finite 0.25, Finite 0.75]]"
  using MockModel_rules[of "[sample_features, turbid_features]"]
  by (simp add: sample_features_def turbid_features_def rule_label_def rule_safe_prob_cases
      ph_in_range_def turbidity_in_range_def)

text \<open>
  C9. For every valid input whose pH lies in \<open>[6.5, 8.5]\<close> and whose turbidity is above
  5.0, the fallback classifier returns the label 0 with the probability vector
  \<open>[0.25, 0.75]\<close>, and the engine reports "Not Safe" with probability 0.75 and confidence
  0.75: the label is not the class of the larger probability.
\<close>

theorem fallback_label_against_argmax:
  assumes "uses_fallback self" "valid_input i"
    "ph_in_range (pH (record_of i))" "\<not> turbidity_in_range (Turbidity (record_of i))"
  shows "model_outputs self i = Inr (0, [Finite 0.25, Finite 0.75])
         \<and> predict self i =
             Inr \<lparr>prediction = 0, probability = Finite 0.75, confidence = Finite 0.75,
                  result = ''Not Safe'', out_model_version = model_version self,
                  features_used = canonical_names\<rparr>"
  using model_outputs_fallback[OF assms(1,2)] predict_fallback[OF assms(1,2)] assms(3,4)
  by (simp add: rule_label_def rule_safe_prob_cases)

theorem fallback_label_against_argmax_witness:
  "uses_fallback fallback_engine \<and> valid_input (InList turbid_features)
   \<and> ph_in_range (pH (record_of (InList turbid_features)))
   \<and> \<not> turbidity_in_range (Turbidity (record_of (InList turbid_features)))
   \<and> model_outputs fallback_engine (InList turbid_features) = Inr (0, [Finite 0.25, Finite 0.75])
   \<and> predict fallback_engine (InList turbid_features) =
             Inr \<lparr>prediction = 0, probability = Finite 0.75, confidence = Finite 0.75,
                  result = ''Not Safe'', out_model_version = ''fallback-1.0.0'',
                  features_used = canonical_names\<rparr>"
proof -
  have 1: "ph_in_range (pH (record_of (InList turbid_features)))"
    by (simp add: record_of_def make_record_def list_kwargs_def turbid_features_def
        ph_in_range_def)
  have 2: "\<not> turbidity_in_range (Turbidity (record_of (InList turbid_features)))"
    by (simp add: record_of_def make_record_def list_kwargs_def turbid_features_def
        turbidity_in_range_def)
  show ?thesis
    using fallback_label_against_argmax[OF fallback_engine_uses_fallback valid_turbid 1 2]
      fallback_engine_uses_fallback valid_turbid 1 2
    by (simp add: fallback_engine_eq)
qed

subsection \<open>Batches\<close>

text \<open>
  C3. If \<open>predict\<close> succeeds on every element of a batch, \<open>predict_batch\<close> returns as
  many outputs as there are inputs, the k-th being the output of the k-th input. If
  \<open>predict\<close> fails on some element, \<open>predict_batch\<close> fails: it returns the error of the
  first failing element and no list of outputs.
\<close>

theorem predict_batch_all_or_nothing:
  "((\<forall>x \<in> set xs. \<exists>y. predict self x = Inr y) \<longrightarrow>
      (\<exists>ys. predict_batch self xs = Inr ys \<and> length ys = length xs
             \<and> (\<forall>k < length xs. predict self (xs ! k) = Inr (ys ! k))))
   \<and> ((\<exists>x \<in> set xs. \<exists>e. predict self x = Inl e) \<longrightarrow> (\<exists>e. predict_batch self xs = Inl e))
   \<and> (k < length xs \<and> predict self (xs ! k) = Inl e
        \<and> (\<forall>j < k. \<exists>y. predict self (xs ! j) = Inr y) \<longrightarrow> predict_batch self xs = Inl e)"
proof (intro conjI impI)
  assume ok: "\<forall>x \<in> set xs. \<exists>y. predict self x = Inr y"
  have pr: "predict self x = Inr (projr (predict self x))" if "x \<in> set xs" for x
    using ok that by force
  then have b: "predict_batch self xs = Inr (map (\<lambda>x. projr (predict self x)) xs)"
    using for_each_ok[of xs "predict self" "\<lambda>x. projr (predict self x)" "[]"]
    by (simp add: predict_batch_def)
  have "\<forall>k < length xs. predict self (xs ! k) = Inr (map (\<lambda>x. projr (predict self x)) xs ! k)"
    using pr by simp
  with b show "\<exists>ys. predict_batch self xs = Inr ys \<and> length ys = length xs
             \<and> (\<forall>k < length xs. predict self (xs ! k) = Inr (ys ! k))"
    by (intro exI[of _ "map (\<lambda>x. projr (predict self x)) xs"]) simp
next
  assume "\<exists>x \<in> set xs. \<exists>e. predict self x = Inl e"
  then show "\<exists>e. predict_batch self xs = Inl e"
    using for_each_some_fail[of _ xs "predict self" _ "[]"]
    by (auto simp add: predict_batch_def)
next
  assume "k < length xs \<and> predict self (xs ! k) = Inl e
        \<and> (\<forall>j < k. \<exists>y. predict self (xs ! j) = Inr y)"
  then show "predict_batch self xs = Inl e"
    using for_each_fail[of k xs "predict self" e "[]"]
    by (simp add: predict_batch_def)
qed

lemma predict_turbid:
  "predict fallback_engine (InList turbid_features) =
     Inr \<lparr>prediction = 0, probability = Finite 0.75, confidence = Finite 0.75,
          result = ''Not Safe'', out_model_version = ''fallback-1.0.0'',
          features_used = canonical_names\<rparr>"
  using predict_fallback[OF fallback_engine_uses_fallback valid_turbid]
  by (simp add: record_of_def make_record_def list_kwargs_def rule_label_def rule_safe_prob_cases
      ph_in_range_def turbidity_in_range_def fallback_engine_eq turbid_features_def)

lemma predict_short:
  "predict fallback_engine (InList [Finite 7.0]) =
     Inl (ValueError ''Input list must have exactly 9 features'')"
  by (simp add: predict_def model_outputs_def convert_input_def)

theorem predict_batch_all_or_nothing_witness:
  "(\<exists>y. predict fallback_engine (InList sample_features) = Inr y)
   \<and> (\<exists>y. predict fallback_engine (InList turbid_features) = Inr y)
   \<and> (\<exists>ys. predict_batch fallback_engine [InList sample_features, InList turbid_features] = Inr ys
          \<and> length ys = 2)
   \<and> (\<exists>e. predict fallback_engine (InList [Finite 7.0]) = Inl e)
   \<and> predict_batch fallback_engine
        [InList sample_features, InList [Finite 7.0], InList turbid_features]
       = Inl (ValueError ''Input list must have exactly 9 features'')"
  using predict_batch_all_or_nothing
          [of "[InList sample_features, InList turbid_features]" fallback_engine 0 IndexError]
        predict_batch_all_or_nothing
          [of "[InList sample_features, InList [Finite 7.0], InList turbid_features]"
              fallback_engine 1 "ValueError ''Input list must have exactly 9 features''"]
        predict_sample predict_turbid predict_short
  by (auto simp add: less_Suc_eq)

subsection \<open>Range checks at inference time\<close>

lemma feature_ranges_names:
  "(j, lo, hi) \<in> set feature_ranges \<Longrightarrow> j < 9"
  by (auto simp add: feature_ranges_def)

text \<open>
  C6. A value of a feature column below the documented minimum of that column makes
  \<open>validate_inference_data\<close> fail; when the array has passed the checks of shape, NaN
  and infinity, the failure is the range error naming the first such column. When no
  value is below its minimum the call succeeds, whatever values exceed the typical
  maxima: each column that exceeds its maximum only adds a warning to the log.
\<close>

theorem validate_inference_data_range_policy:
  "((i, lo, hi) \<in> set feature_ranges \<and> i < shape f ! 1
      \<and> list_ex (\<lambda>v. flt v (Finite (real lo))) (column f i)
      \<longrightarrow> (\<exists>e. validate_inference_data f names = Inl e))
   \<and> (length (shape f) = 2 \<and> shape f ! 1 = length names
        \<and> \<not> list_ex isnan (elems f) \<and> \<not> list_ex isinf (elems f) \<longrightarrow>
        ((i, lo, hi) \<in> set feature_ranges \<and> i < shape f ! 1
           \<and> list_ex (\<lambda>v. flt v (Finite (real lo))) (column f i)
           \<longrightarrow> (\<exists>j lo' hi'. (j, lo', hi') \<in> set feature_ranges \<and> j < shape f ! 1
                  \<and> list_ex (\<lambda>v. flt v (Finite (real lo'))) (column f j)
                  \<and> validate_inference_data f names
                      = Inl (ValueError (below_msg (names ! j) lo'))))
        \<and> ((\<forall>(j, lo', hi') \<in> set feature_ranges. j < shape f ! 1 \<longrightarrow>
                \<not> list_ex (\<lambda>v. flt v (Finite (real lo'))) (column f j))
           \<longrightarrow> validate_inference_data f names
                 = Inr (map (\<lambda>(j, lo', hi'). (WARNING, above_msg (names ! j) hi'))
                          (filter (\<lambda>(j, lo', hi'). j < shape f ! 1 \<and>
                                     list_ex (\<lambda>v. fgt v (Finite (real hi'))) (column f j))
                             feature_ranges)
                        @ [(DEBUG, ''Inference data validation passed'')])))"
proof -
  have fail: "\<exists>j lo' hi'. (j, lo', hi') \<in> set feature_ranges \<and> j < shape f ! 1
                  \<and> list_ex (\<lambda>v. flt v (Finite (real lo'))) (column f j)
                  \<and> validate_inference_data f names
                      = Inl (ValueError (below_msg (names ! j) lo'))"
    if pre: "length (shape f) = 2" "shape f ! 1 = length names"
      "\<not> list_ex isnan (elems f)" "\<not> list_ex isinf (elems f)"
    and low: "(i, lo, hi) \<in> set feature_ranges" "i < shape f ! 1"
      "list_ex (\<lambda>v. flt v (Finite (real lo))) (column f i)"
  proof -
    have "\<exists>j lo' hi'. (j, lo', hi') \<in> set feature_ranges \<and> j < shape f ! 1 \<and>
            list_ex (\<lambda>v. flt v (Finite (real lo'))) (column f j) \<and>
            check_ranges f names feature_ranges [] = Inl (ValueError (below_msg (names ! j) lo'))"
      by (rule check_ranges_fail[OF low]) (use pre(2) in simp)
    then obtain j lo' hi' where
      j: "(j, lo', hi') \<in> set feature_ranges" "j < shape f ! 1"
         "list_ex (\<lambda>v. flt v (Finite (real lo'))) (column f j)"
         "check_ranges f names feature_ranges [] = Inl (ValueError (below_msg (names ! j) lo'))"
      by blast
    have "validate_inference_data f names = Inl (ValueError (below_msg (names ! j) lo'))"
      using pre j(4) by (simp add: validate_inference_data_def)
    with j(1,2,3) show ?thesis by blast
  qed
  have part1: "\<exists>e. validate_inference_data f names = Inl e"
    if low: "(i, lo, hi) \<in> set feature_ranges" "i < shape f ! 1"
      "list_ex (\<lambda>v. flt v (Finite (real lo))) (column f i)"
  proof (cases "length (shape f) = 2 \<and> shape f ! 1 = length names
      \<and> \<not> list_ex isnan (elems f) \<and> \<not> list_ex isinf (elems f)")
    case True
    with fail[OF _ _ _ _ low] show ?thesis by blast
  next
    case False
    then show ?thesis by (auto simp add: validate_inference_data_def)
  qed
  have part3: "validate_inference_data f names
                 = Inr (map (\<lambda>(j, lo', hi'). (WARNING, above_msg (names ! j) hi'))
                          (filter (\<lambda>(j, lo', hi'). j < shape f ! 1 \<and>
                                     list_ex (\<lambda>v. fgt v (Finite (real hi'))) (column f j))
                             feature_ranges)
                        @ [(DEBUG, ''Inference data validation passed'')])"
    if pre: "length (shape f) = 2" "shape f ! 1 = length names"
      "\<not> list_ex isnan (elems f)" "\<not> list_ex isinf (elems f)"
    and nolow: "\<forall>(j, lo', hi') \<in> set feature_ranges. j < shape f ! 1 \<longrightarrow>
                \<not> list_ex (\<lambda>v. flt v (Finite (real lo'))) (column f j)"
  proof -
    have h: "\<And>j lo hi. (j, lo, hi) \<in> set feature_ranges \<Longrightarrow> j < shape f ! 1 \<Longrightarrow>
             j < length names \<and> \<not> list_ex (\<lambda>v. flt v (Finite (real lo))) (column f j)"
      using pre(2) nolow by auto
    have cr: "check_ranges f names feature_ranges [] =
           Inr ([] @ map (\<lambda>(i, lo, hi). (WARNING, above_msg (names ! i) hi))
                      (filter (\<lambda>(i, lo, hi). i < shape f ! 1 \<and>
                                  list_ex (\<lambda>v. fgt v (Finite (real hi))) (column f i))
                         feature_ranges))"
      by (rule check_ranges_ok) (use h in blast)
    have "validate_inference_data f names =
            (case check_ranges f names feature_ranges [] of
               Inl e \<Rightarrow> Inl e
             | Inr lg \<Rightarrow> Inr (lg @ [(DEBUG, ''Inference data validation passed'')]))"
      using pre by (simp add: validate_inference_data_def)
    then show ?thesis
      by (simp only: cr sum.case append_Nil)
  qed
  from fail part1 part3 show ?thesis by blast
qed

lemma validate_negative_hardness:
  "validate_inference_data negative_hardness canonical_names
     = Inl (ValueError ''Feature Hardness has values below minimum (0)'')"
  by (simp add: validate_inference_data_def negative_hardness_def canonical_names_def
      feature_ranges_def column_def isnan_def isinf_def flt_def fgt_def below_msg_def
      show_nat.simps digit_char_def)

lemma validate_ph_above_14:
  "validate_inference_data ph_above_14 canonical_names
     = Inr [(WARNING, ''Feature pH has values above typical maximum (14)''),
            (DEBUG, ''Inference data validation passed'')]"
  by (simp add: validate_inference_data_def ph_above_14_def canonical_names_def
      feature_ranges_def column_def isnan_def isinf_def flt_def fgt_def above_msg_def
      show_nat.simps digit_char_def)

theorem validate_inference_data_range_policy_witness:
  "(1, 0, 1000) \<in> set feature_ranges \<and> 1 < shape negative_hardness ! 1
   \<and> list_ex (\<lambda>v. flt v (Finite (real 0))) (column negative_hardness 1)
   \<and> length (shape negative_hardness) = 2
   \<and> shape negative_hardness ! 1 = length canonical_names
   \<and> \<not> list_ex isnan (elems negative_hardness) \<and> \<not> list_ex isinf (elems negative_hardness)
   \<and> validate_inference_data negative_hardness canonical_names
        = Inl (ValueError ''Feature Hardness has values below minimum (0)'')
   \<and> length (shape ph_above_14) = 2 \<and> shape ph_above_14 ! 1 = length canonical_names
   \<and> \<not> list_ex isnan (elems ph_above_14) \<and> \<not> list_ex isinf (elems ph_above_14)
   \<and> list_all (\<lambda>(j, lo', hi'). \<not> list_ex (\<lambda>v. flt v (Finite (real lo'))) (column ph_above_14 j))
         feature_ranges
   \<and> list_ex (\<lambda>v. fgt v (Finite (real 14))) (column ph_above_14 0)
   \<and> validate_inference_data ph_above_14 canonical_names
        = Inr [(WARNING, ''Feature pH has values above typical maximum (14)''),
               (DEBUG, ''Inference data validation passed'')]"
  using validate_inference_data_range_policy[of 1 0 1000 negative_hardness canonical_names]
    validate_inference_data_range_policy[of 0 0 14 ph_above_14 canonical_names]
    validate_negative_hardness validate_ph_above_14
  by (simp add: feature_ranges_def negative_hardness_def ph_above_14_def canonical_names_def
      column_def isnan_def isinf_def flt_def fgt_def)

subsection \<open>Saving a trained model\<close>

text \<open>
  C8. \<open>save_model\<close> fails when the model or the scaler is unset: it reports failure,
  writes nothing and logs the error "Model or scaler not trained". When the stages of
  \<open>train_from_file\<close> succeed and saving fails, \<open>train_from_file\<close> still returns the
  evaluation results, with \<open>model_saved\<close> set to false; when saving succeeds it returns
  them with \<open>model_saved\<close> set to true.
\<close>

theorem save_failure_is_reported_apart:
  "(t_model self = None \<or> t_scaler self = None \<longrightarrow>
      save_model self dmp d
        = (False, d, [(ERROR, ''Error saving model: Model or scaler not trained'')]))
   \<and> (load_data stg path = Inr data \<and> preprocess_data stg data = Inr (sc, X)
        \<and> train_model stg X = Inr (m, res) \<longrightarrow>
        (\<exists>self' d'. train_from_file self stg dmp path d
            = Inr (res(''model_saved'' \<mapsto>
                         RBool (fst (save_model (self\<lparr>t_scaler := Some sc, t_model := Some m\<rparr>) dmp d))),
                   self', d')))
   \<and> (load_data stg path = Inr data \<and> preprocess_data stg data = Inr (sc, X)
        \<and> train_model stg X = Inr (m, res)
        \<and> \<not> fst (save_model (self\<lparr>t_scaler := Some sc, t_model := Some m\<rparr>) dmp d) \<longrightarrow>
        (\<exists>self' d'. train_from_file self stg dmp path d
            = Inr (res(''model_saved'' \<mapsto> RBool False), self', d')))"
proof (intro conjI impI)
  assume "t_model self = None \<or> t_scaler self = None"
  then show "save_model self dmp d
        = (False, d, [(ERROR, ''Error saving model: Model or scaler not trained'')])"
    by (auto simp add: save_model_def split: option.splits)
next
  assume "load_data stg path = Inr data \<and> preprocess_data stg data = Inr (sc, X)
        \<and> train_model stg X = Inr (m, res)"
  then show "\<exists>self' d'. train_from_file self stg dmp path d
            = Inr (res(''model_saved'' \<mapsto>
                         RBool (fst (save_model (self\<lparr>t_scaler := Some sc, t_model := Some m\<rparr>) dmp d))),
                   self', d')"
    by (cases "save_model (self\<lparr>t_scaler := Some sc, t_model := Some m\<rparr>) dmp d")
       (simp add: train_from_file_def Let_def)
next
  assume "load_data stg path = Inr data \<and> preprocess_data stg data = Inr (sc, X)
        \<and> train_model stg X = Inr (m, res)
        \<and> \<not> fst (save_model (self\<lparr>t_scaler := Some sc, t_model := Some m\<rparr>) dmp d)"
  then show "\<exists>self' d'. train_from_file self stg dmp path d
            = Inr (res(''model_saved'' \<mapsto> RBool False), self', d')"
    by (cases "save_model (self\<lparr>t_scaler := Some sc, t_model := Some m\<rparr>) dmp d")
       (simp add: train_from_file_def Let_def)
qed

lemma save_model_unset:
  "save_model (new_trainer ''ml'') read_only_dump Map.empty
     = (False, Map.empty, [(ERROR, ''Error saving model: Model or scaler not trained'')])"
  by (simp add: save_model_def new_trainer_def)

theorem save_failure_is_reported_apart_witness:
  "t_model (new_trainer ''ml'') = None
   \<and> save_model (new_trainer ''ml'') read_only_dump Map.empty
        = (False, Map.empty, [(ERROR, ''Error saving model: Model or scaler not trained'')])
   \<and> load_data sample_stages ''data.csv'' = Inr ()
   \<and> preprocess_data sample_stages () = Inr (MockScaler, ())
   \<and> train_model sample_stages ()
        = Inr (MockModel, [''train_f1'' \<mapsto> RNum 0.9, ''f1'' \<mapsto> RNum 0.8])
   \<and> \<not> fst (save_model (new_trainer ''ml''\<lparr>t_scaler := Some MockScaler, t_model := Some MockModel\<rparr>)
               read_only_dump Map.empty)
   \<and> (\<exists>self' d'. train_from_file (new_trainer ''ml'') sample_stages read_only_dump ''data.csv''
                    Map.empty
          = Inr ([''train_f1'' \<mapsto> RNum 0.9, ''f1'' \<mapsto> RNum 0.8, ''model_saved'' \<mapsto> RBool False],
                 self', d'))"
  using save_failure_is_reported_apart
          [of "new_trainer ''ml''" read_only_dump Map.empty sample_stages "''data.csv''" "()"
              MockScaler "()" MockModel "[''train_f1'' \<mapsto> RNum 0.9, ''f1'' \<mapsto> RNum 0.8]"]
  by (simp add: new_trainer_def sample_stages_def save_model_def read_only_dump_def)

lemma load_model_is_loaded:
  "is_loaded (snd (load_model self st)) = (fst (load_model self st) \<or> is_loaded self)"
  by (simp add: load_model_def Let_def split: sum.splits)

lemma load_model_not_found:
  "\<not> (path_exists st (path_join (model_dir self) ''model.pkl'')
      \<and> path_exists st (path_join (model_dir self) ''scaler.pkl''))
   \<Longrightarrow> load_model self st = (False, self)"
  by (simp add: load_model_def Let_def)

lemma init_fallback:
  assumes "\<not> fst (load_model (new_predictor dir) st)"
  shows "init dir st = initialize_fallback_model (snd (load_model (new_predictor dir) st))"
  using assms by (cases "load_model (new_predictor dir) st") (simp add: init_def Let_def)

lemma initialize_fallback_model_uses_fallback: "uses_fallback (initialize_fallback_model self)"
  by (simp add: uses_fallback_def initialize_fallback_model_def)

subsection \<open>The loaded flag\<close>

text \<open>
  C10. When the model files are not found, \<open>load_model\<close> returns false; and whenever
  \<open>load_model\<close> returns false at start-up, the engine holds the fallback pair with
  \<open>is_loaded\<close> false and version "fallback-1.0.0", \<open>get_model_info\<close> reports
  \<open>model_loaded\<close> false, and \<open>predict\<close> still returns an output for every valid input.
  The flag is true after \<open>load_model\<close> only if it was true before or the load
  succeeded; a successful load sets it; installing the fallback leaves it as it was.
\<close>

theorem fallback_reports_not_loaded:
  "(\<not> (path_exists st (path_join dir ''model.pkl'')
        \<and> path_exists st (path_join dir ''scaler.pkl''))
      \<longrightarrow> \<not> fst (load_model (new_predictor dir) st))
   \<and> (\<not> fst (load_model (new_predictor dir) st) \<longrightarrow>
        \<not> is_loaded (init dir st) \<and> model_version (init dir st) = ''fallback-1.0.0''
        \<and> \<not> model_loaded (get_model_info (init dir st))
        \<and> (\<forall>i. valid_input i \<longrightarrow> (\<exists>out. predict (init dir st) i = Inr out)))
   \<and> (is_loaded (snd (load_model self st)) \<longrightarrow> fst (load_model self st) \<or> is_loaded self)
   \<and> (fst (load_model self st) \<longrightarrow> is_loaded (snd (load_model self st)))
   \<and> is_loaded (initialize_fallback_model self) = is_loaded self
   \<and> \<not> is_loaded (new_predictor dir)"
proof (intro conjI impI allI)
  assume "\<not> (path_exists st (path_join dir ''model.pkl'')
        \<and> path_exists st (path_join dir ''scaler.pkl''))"
  then show "\<not> fst (load_model (new_predictor dir) st)"
    using load_model_not_found[of st "new_predictor dir"] by (simp add: new_predictor_def)
next
  assume f: "\<not> fst (load_model (new_predictor dir) st)"
  have nl: "\<not> is_loaded (snd (load_model (new_predictor dir) st))"
    using f by (simp add: load_model_is_loaded new_predictor_def)
  show "\<not> is_loaded (init dir st)"
    using nl by (simp add: init_fallback[OF f] initialize_fallback_model_def)
  show "model_version (init dir st) = ''fallback-1.0.0''"
    by (simp add: init_fallback[OF f] initialize_fallback_model_def)
  show "\<not> model_loaded (get_model_info (init dir st))"
    using nl by (simp add: init_fallback[OF f] initialize_fallback_model_def get_model_info_def)
next
  fix i
  assume f: "\<not> fst (load_model (new_predictor dir) st)" and v: "valid_input i"
  have "uses_fallback (init dir st)"
    by (simp add: init_fallback[OF f] initialize_fallback_model_uses_fallback)
  from predict_fallback[OF this v] show "\<exists>out. predict (init dir st) i = Inr out"
    by simp
next
  assume "is_loaded (snd (load_model self st))"
  then show "fst (load_model self st) \<or> is_loaded self"
    by (simp add: load_model_is_loaded)
next
  assume "fst (load_model self st)"
  then show "is_loaded (snd (load_model self st))"
    by (simp add: load_model_is_loaded)
next
  show "is_loaded (initialize_fallback_model self) = is_loaded self"
    by (simp add: initialize_fallback_model_def)
  show "\<not> is_loaded (new_predictor dir)"
    by (simp add: new_predictor_def)
qed

theorem fallback_reports_not_loaded_witness:
  "\<not> path_exists no_files (path_join ''ml'' ''model.pkl'')
   \<and> \<not> fst (load_model (new_predictor ''ml'') no_files)
   \<and> \<not> is_loaded fallback_engine \<and> model_version fallback_engine = ''fallback-1.0.0''
   \<and> \<not> model_loaded (get_model_info fallback_engine)
   \<and> valid_input (InList sample_features)
   \<and> (\<exists>out. predict fallback_engine (InList sample_features) = Inr out)"
  using fallback_reports_not_loaded[of no_files "''ml''" "new_predictor ''ml''"] valid_sample
  by (simp add: fallback_engine_def no_files_def)

end
